theory Spec2Isabelle
  imports
    Complex_Main
    "HOL-Library.Char_ord"
    "HOL-Library.List_Lexorder"
    "HOL-Library.Option_ord"
    "HOL-Library.Sublist"
    "HOL-Library.AList"
begin

section \<open>Data model\<close>

text \<open>
  The backend is five HTTP handlers over a key-value store. Every handler runs inside a
  \<^verbatim>\<open>try { ... } catch (error) { return c.json({ error: String(error) }, 500) }\<close>
  block, so a thrown exception is a value here: \<open>Inl e\<close> of a sum type, where \<open>e\<close> is
  the text \<^verbatim>\<open>String(error)\<close>.
\<close>

type_synonym exn = string

text \<open>
  The values a coordinate field holds: \<^verbatim>\<open>null\<close> (written by signup), a JSON number
  (written by update-location), or \<^verbatim>\<open>undefined\<close> when the property is absent from the
  object. JSON numbers are finite, so a number is a real; there is no NaN.
\<close>

datatype jsval = Undefined | Null | Num real

text \<open>
  JavaScript truthiness, as the \<^verbatim>\<open>&&\<close> of the nearby-users filter applies it:
  \<^verbatim>\<open>undefined\<close>, \<^verbatim>\<open>null\<close> and the number zero are falsy.
\<close>

fun truthy :: "jsval \<Rightarrow> bool" where
  "truthy Undefined = False"
| "truthy Null = False"
| "truthy (Num x) = (x \<noteq> 0)"

text \<open>
  The handlers read and write untyped objects (\<^verbatim>\<open>any\<close>). An object is the record of
  the properties the handlers touch; \<open>None\<close> (or \<open>Undefined\<close> for a coordinate) is a
  property the object does not have. A user profile is the object signup builds, a
  message the object send-message builds. String properties are strings of code units,
  ordered as JavaScript orders them (by code unit, a proper prefix first). A timestamp
  property holds the ISO-8601 text of an instant; it is kept as that instant's epoch
  milliseconds, which is what \<^verbatim>\<open>new Date(x.timestamp).getTime()\<close> reads back from it.
  For an object whose timestamp is absent or is not a date, that reading is NaN; such a
  timestamp is \<open>None\<close>.
\<close>

record jsobj =
  id' :: "string option"
  email :: "string option"
  name :: "string option"
  avatar :: "string option"
  latitude :: jsval
  longitude :: jsval
  lastSeen :: "nat option"
  senderId :: "string option"
  recipientId :: "string option"
  message :: "string option"
  timestamp :: "nat option"

text \<open>The object with no property at all; object literals are updates of it.\<close>

definition empty_obj :: jsobj where
  "empty_obj =
     \<lparr>id' = None, email = None, name = None, avatar = None,
      latitude = Undefined, longitude = Undefined, lastSeen = None,
      senderId = None, recipientId = None, message = None, timestamp = None\<rparr>"

section \<open>The key-value store\<close>

text \<open>
  The handlers call the module \<^verbatim>\<open>./kv_store.tsx\<close> through three asynchronous functions,
  each of which may throw. The handlers are written against this interface: a store
  state \<open>'s\<close> and the three operations on it.
\<close>

record 's kv_store =
  kv_set :: "string \<Rightarrow> jsobj \<Rightarrow> 's \<Rightarrow> exn + 's"
  kv_get :: "string \<Rightarrow> 's \<Rightarrow> exn + jsobj option"
  kv_getByPrefix :: "string \<Rightarrow> 's \<Rightarrow> exn + jsobj list"

type_synonym store = "(string \<times> jsobj) list"

text \<open>
  Modelled from the spec: the module \<^verbatim>\<open>kv_store.tsx\<close> is not among the sources. Its
  contract (section 4.1): \<^verbatim>\<open>set(key, value)\<close> is an upsert that overwrites
  unconditionally.
\<close>

definition mem_set :: "string \<Rightarrow> jsobj \<Rightarrow> store \<Rightarrow> exn + store" where
  "mem_set k v s = Inr (AList.update k v s)"

text \<open>
  Modelled from the spec: \<^verbatim>\<open>get(key)\<close> of the absent \<^verbatim>\<open>kv_store.tsx\<close> returns the
  stored value or an explicit "not found" signal.
\<close>

definition mem_get :: "string \<Rightarrow> store \<Rightarrow> exn + jsobj option" where
  "mem_get k s = Inr (map_of s k)"

text \<open>
  Modelled from the spec: \<^verbatim>\<open>getByPrefix(prefix)\<close> of the absent \<^verbatim>\<open>kv_store.tsx\<close>
  returns the values of all keys that start with the prefix, in no promised order; here
  in the order of the entries.
\<close>

definition mem_getByPrefix :: "string \<Rightarrow> store \<Rightarrow> exn + jsobj list" where
  "mem_getByPrefix p s = Inr (map snd (filter (\<lambda>(k, v). prefix p k) s))"

definition mem :: "store kv_store" where
  "mem = \<lparr>kv_set = mem_set, kv_get = mem_get, kv_getByPrefix = mem_getByPrefix\<rparr>"

section \<open>Responses\<close>

datatype body =
    Error string
  | Success
  | SuccessUser string
  | Users "jsobj list"
  | SuccessMessage jsobj
  | Messages "jsobj list"

record response =
  status :: nat
  body :: body

text \<open>\<^verbatim>\<open>c.json(body)\<close> answers with status 200, \<^verbatim>\<open>c.json(body, n)\<close> with status n.\<close>

definition json :: "body \<Rightarrow> nat \<Rightarrow> response" where
  "json b n = \<lparr>status = n, body = b\<rparr>"

text \<open>
  The \<^verbatim>\<open>catch\<close> clause every handler ends with: a throw anywhere in the \<^verbatim>\<open>try\<close> block
  becomes the response 500 with the error's text; the store stays as the handler found
  it, since no handler does anything that can throw after its write.
\<close>

definition try_catch :: "'s \<Rightarrow> exn + (response \<times> 's) \<Rightarrow> response \<times> 's" where
  "try_catch s r = (case r of Inl e \<Rightarrow> (json (Error e) 500, s) | Inr x \<Rightarrow> x)"

section \<open>Conversation ids and message keys\<close>

text \<open>
  \<^verbatim>\<open>[user.id, recipientId].sort().join(':')\<close>: the default sort compares the two
  strings by code units and is stable, so the pair is swapped exactly when the second
  is smaller than the first.
\<close>

definition conversationId :: "string \<Rightarrow> string \<Rightarrow> string" where
  "conversationId user rid = (if rid < user then rid @ '':'' @ user else user @ '':'' @ rid)"

text \<open>The decimal digits of a number, as a template literal prints \<^verbatim>\<open>Date.now()\<close>.\<close>

definition digit :: "nat \<Rightarrow> char" where
  "digit d = ''0123456789'' ! d"

function decimal :: "nat \<Rightarrow> string" where
  "decimal n = (if n < 10 then [digit n] else decimal (n div 10) @ [digit (n mod 10)])"
  by pat_completeness auto
termination
  by (relation "measure (\<lambda>n. n)") auto

declare decimal.simps [simp del]

text \<open>\<^verbatim>\<open>`message:${conversationId}:${Date.now()}`\<close>\<close>

definition messageKey :: "string \<Rightarrow> string \<Rightarrow> nat \<Rightarrow> string" where
  "messageKey user rid now = ''message:'' @ conversationId user rid @ '':'' @ decimal now"

text \<open>\<^verbatim>\<open>`message:${conversationId}`\<close>, the prefix get-messages scans.\<close>

definition scanPrefix :: "string \<Rightarrow> string \<Rightarrow> string" where
  "scanPrefix user rid = ''message:'' @ conversationId user rid"

section \<open>The handlers\<close>

text \<open>
  What a handler takes from outside is passed in, in the order the handler reads it:
  \<^item> \<open>supabase\<close>: the result of \<^verbatim>\<open>createClient(...)\<close>, which may throw;
  \<^item> \<open>createUser\<close>: \<^verbatim>\<open>supabase.auth.admin.createUser\<close> of the identity provider. It
    throws, or reports an error (\<open>Inr (Inl message)\<close>), or returns the new user, of
    which the handler uses the id (\<open>Inr (Inr id)\<close>);
  \<^item> \<open>getUser\<close>: \<^verbatim>\<open>supabase.auth.getUser\<close>. It throws, or returns the user the access
    token resolves to, \<open>None\<close> for \<^verbatim>\<open>user: null\<close>;
  \<^item> \<open>accessToken\<close>: what \<^verbatim>\<open>c.req.header('Authorization')?.split(' ')[1]\<close> gave;
  \<^item> \<open>req\<close>: the result of \<^verbatim>\<open>await c.req.json()\<close> and of destructuring it, which throws
    on a body that is not JSON;
  \<^item> \<open>now\<close>: the clock, in epoch milliseconds;
  \<^item> \<open>engine\<close> (get-messages only): the order in which the engine's sort returns a
    list on which the comparator yields NaN.
\<close>

subsection \<open>POST /signup\<close>

text \<open>
  The profile object signup stores:
  \<^verbatim>\<open>{ id: data.user.id, email, name, avatar, latitude: null, longitude: null,
     lastSeen: new Date().toISOString() }\<close>
\<close>

definition newProfile :: "string \<Rightarrow> string \<Rightarrow> string \<Rightarrow> string \<Rightarrow> nat \<Rightarrow> jsobj" where
  "newProfile user mail nam avat now =
     empty_obj\<lparr>id' := Some user, email := Some mail, name := Some nam, avatar := Some avat,
       latitude := Null, longitude := Null, lastSeen := Some now\<rparr>"

definition signup_try ::
  "'s kv_store \<Rightarrow> exn + unit \<Rightarrow>
   (string \<times> string \<times> string \<times> string \<Rightarrow> exn + (string + string)) \<Rightarrow>
   exn + (string \<times> string \<times> string \<times> string) \<Rightarrow> nat \<Rightarrow> 's \<Rightarrow> exn + (response \<times> 's)" where
  "signup_try kv supabase createUser req now s =
     (case supabase of Inl e \<Rightarrow> Inl e | Inr _ \<Rightarrow>
      (case req of Inl e \<Rightarrow> Inl e | Inr (mail, password, nam, avat) \<Rightarrow>
       (case createUser (mail, password, nam, avat) of
          Inl e \<Rightarrow> Inl e
        | Inr (Inl error_message) \<Rightarrow> Inr (json (Error error_message) 400, s)
        | Inr (Inr user) \<Rightarrow>
           (case kv_set kv (''user:'' @ user) (newProfile user mail nam avat now) s of
              Inl e \<Rightarrow> Inl e
            | Inr s' \<Rightarrow> Inr (json (SuccessUser user) 200, s')))))"

definition signup ::
  "'s kv_store \<Rightarrow> exn + unit \<Rightarrow>
   (string \<times> string \<times> string \<times> string \<Rightarrow> exn + (string + string)) \<Rightarrow>
   exn + (string \<times> string \<times> string \<times> string) \<Rightarrow> nat \<Rightarrow> 's \<Rightarrow> response \<times> 's" where
  "signup kv supabase createUser req now s =
     try_catch s (signup_try kv supabase createUser req now s)"

subsection \<open>POST /update-location\<close>

definition updateLocation_try ::
  "'s kv_store \<Rightarrow> exn + unit \<Rightarrow> (string option \<Rightarrow> exn + string option) \<Rightarrow> string option \<Rightarrow>
   exn + (jsval \<times> jsval) \<Rightarrow> nat \<Rightarrow> 's \<Rightarrow> exn + (response \<times> 's)" where
  "updateLocation_try kv supabase getUser accessToken req now s =
     (case supabase of Inl e \<Rightarrow> Inl e | Inr _ \<Rightarrow>
      (case getUser accessToken of
         Inl e \<Rightarrow> Inl e
       | Inr None \<Rightarrow> Inr (json (Error ''Unauthorized'') 401, s)
       | Inr (Some user) \<Rightarrow>
          (case req of Inl e \<Rightarrow> Inl e | Inr (lat, lon) \<Rightarrow>
           (case kv_get kv (''user:'' @ user) s of
              Inl e \<Rightarrow> Inl e
            | Inr None \<Rightarrow> Inr (json Success 200, s)
            | Inr (Some userData) \<Rightarrow>
               (case kv_set kv (''user:'' @ user)
                       (userData\<lparr>latitude := lat, longitude := lon, lastSeen := Some now\<rparr>) s of
                  Inl e \<Rightarrow> Inl e
                | Inr s' \<Rightarrow> Inr (json Success 200, s'))))))"

definition updateLocation ::
  "'s kv_store \<Rightarrow> exn + unit \<Rightarrow> (string option \<Rightarrow> exn + string option) \<Rightarrow> string option \<Rightarrow>
   exn + (jsval \<times> jsval) \<Rightarrow> nat \<Rightarrow> 's \<Rightarrow> response \<times> 's" where
  "updateLocation kv supabase getUser accessToken req now s =
     try_catch s (updateLocation_try kv supabase getUser accessToken req now s)"

subsection \<open>GET /nearby-users\<close>

text \<open>
  The filter \<^verbatim>\<open>u.id !== user.id && u.latitude && u.longitude\<close> and the object literal
  of the \<^verbatim>\<open>map\<close> that follows it, which copies six properties.
\<close>

definition located_other :: "string \<Rightarrow> jsobj \<Rightarrow> bool" where
  "located_other user u \<longleftrightarrow> id' u \<noteq> Some user \<and> truthy (latitude u) \<and> truthy (longitude u)"

definition public_fields :: "jsobj \<Rightarrow> jsobj" where
  "public_fields u =
     empty_obj\<lparr>id' := id' u, name := name u, avatar := avatar u,
       latitude := latitude u, longitude := longitude u, lastSeen := lastSeen u\<rparr>"

definition nearbyUsers_try ::
  "'s kv_store \<Rightarrow> exn + unit \<Rightarrow> (string option \<Rightarrow> exn + string option) \<Rightarrow> string option \<Rightarrow>
   's \<Rightarrow> exn + (response \<times> 's)" where
  "nearbyUsers_try kv supabase getUser accessToken s =
     (case supabase of Inl e \<Rightarrow> Inl e | Inr _ \<Rightarrow>
      (case getUser accessToken of
         Inl e \<Rightarrow> Inl e
       | Inr None \<Rightarrow> Inr (json (Error ''Unauthorized'') 401, s)
       | Inr (Some user) \<Rightarrow>
          (case kv_getByPrefix kv ''user:'' s of
             Inl e \<Rightarrow> Inl e
           | Inr allUsers \<Rightarrow>
               Inr (json (Users (map public_fields (filter (located_other user) allUsers))) 200, s))))"

definition nearbyUsers ::
  "'s kv_store \<Rightarrow> exn + unit \<Rightarrow> (string option \<Rightarrow> exn + string option) \<Rightarrow> string option \<Rightarrow>
   's \<Rightarrow> response \<times> 's" where
  "nearbyUsers kv supabase getUser accessToken s =
     try_catch s (nearbyUsers_try kv supabase getUser accessToken s)"

subsection \<open>POST /send-message\<close>

text \<open>
  The handler reads the clock twice: \<^verbatim>\<open>Date.now()\<close> for the key (\<open>now\<close>) and
  \<^verbatim>\<open>new Date()\<close> for the timestamp property (\<open>date\<close>).
\<close>

text \<open>
  The message object send-message stores and returns:
  \<^verbatim>\<open>{ senderId: user.id, recipientId, message, timestamp: new Date().toISOString() }\<close>
\<close>

definition newMessage :: "string \<Rightarrow> string \<Rightarrow> string \<Rightarrow> nat \<Rightarrow> jsobj" where
  "newMessage user rid m date =
     empty_obj\<lparr>senderId := Some user, recipientId := Some rid, message := Some m,
       timestamp := Some date\<rparr>"

definition sendMessage_try ::
  "'s kv_store \<Rightarrow> exn + unit \<Rightarrow> (string option \<Rightarrow> exn + string option) \<Rightarrow> string option \<Rightarrow>
   exn + (string \<times> string) \<Rightarrow> nat \<Rightarrow> nat \<Rightarrow> 's \<Rightarrow> exn + (response \<times> 's)" where
  "sendMessage_try kv supabase getUser accessToken req now date s =
     (case supabase of Inl e \<Rightarrow> Inl e | Inr _ \<Rightarrow>
      (case getUser accessToken of
         Inl e \<Rightarrow> Inl e
       | Inr None \<Rightarrow> Inr (json (Error ''Unauthorized'') 401, s)
       | Inr (Some user) \<Rightarrow>
          (case req of Inl e \<Rightarrow> Inl e | Inr (rid, m) \<Rightarrow>
           (let messageData = newMessage user rid m date
            in case kv_set kv (messageKey user rid now) messageData s of
                 Inl e \<Rightarrow> Inl e
               | Inr s' \<Rightarrow> Inr (json (SuccessMessage messageData) 200, s')))))"

definition sendMessage ::
  "'s kv_store \<Rightarrow> exn + unit \<Rightarrow> (string option \<Rightarrow> exn + string option) \<Rightarrow> string option \<Rightarrow>
   exn + (string \<times> string) \<Rightarrow> nat \<Rightarrow> nat \<Rightarrow> 's \<Rightarrow> response \<times> 's" where
  "sendMessage kv supabase getUser accessToken req now date s =
     try_catch s (sendMessage_try kv supabase getUser accessToken req now date s)"

subsection \<open>GET /get-messages/:recipientId\<close>

text \<open>
  \<^verbatim>\<open>messages.sort((a, b) => new Date(a.timestamp).getTime() - new Date(b.timestamp).getTime())\<close>

  When every object of the list has a timestamp the comparator is the difference of two
  instants, and the sort, which is stable, returns the list in ascending order of
  timestamp with equal timestamps in the order they had. When some object has none, the
  comparator yields NaN on it; the language then leaves the resulting order to the
  engine, and it need not be ascending. What the engine returns in that case is the
  parameter \<open>engine\<close>, of which nothing is assumed.
\<close>

definition sortByTimestamp :: "(jsobj list \<Rightarrow> jsobj list) \<Rightarrow> jsobj list \<Rightarrow> jsobj list" where
  "sortByTimestamp engine messages =
     (if list_all (\<lambda>m. timestamp m \<noteq> None) messages then sort_key timestamp messages
      else engine messages)"

definition getMessages_try ::
  "'s kv_store \<Rightarrow> (jsobj list \<Rightarrow> jsobj list) \<Rightarrow> exn + unit \<Rightarrow>
   (string option \<Rightarrow> exn + string option) \<Rightarrow> string option \<Rightarrow> string \<Rightarrow> 's \<Rightarrow>
   exn + (response \<times> 's)" where
  "getMessages_try kv engine supabase getUser accessToken rid s =
     (case supabase of Inl e \<Rightarrow> Inl e | Inr _ \<Rightarrow>
      (case getUser accessToken of
         Inl e \<Rightarrow> Inl e
       | Inr None \<Rightarrow> Inr (json (Error ''Unauthorized'') 401, s)
       | Inr (Some user) \<Rightarrow>
          (case kv_getByPrefix kv (scanPrefix user rid) s of
             Inl e \<Rightarrow> Inl e
           | Inr messages \<Rightarrow>
               Inr (json (Messages (sortByTimestamp engine messages)) 200, s))))"

definition getMessages ::
  "'s kv_store \<Rightarrow> (jsobj list \<Rightarrow> jsobj list) \<Rightarrow> exn + unit \<Rightarrow>
   (string option \<Rightarrow> exn + string option) \<Rightarrow> string option \<Rightarrow> string \<Rightarrow> 's \<Rightarrow>
   response \<times> 's" where
  "getMessages kv engine supabase getUser accessToken rid s =
     try_catch s (getMessages_try kv engine supabase getUser accessToken rid s)"

section \<open>Stores that differ in e-mail addresses only\<close>

text \<open>The store with the e-mail property removed from every object.\<close>

definition without_email :: "store \<Rightarrow> store" where
  "without_email s = map (\<lambda>(k, u). (k, u\<lparr>email := None\<rparr>)) s"

section \<open>Stores whose messages are dated\<close>

text \<open>
  Every object stored under a key that starts with \<open>message:\<close> has a timestamp. The empty
  store is such a store, and the handlers keep it so.
\<close>

definition dated :: "store \<Rightarrow> bool" where
  "dated s \<longleftrightarrow> (\<forall>(k, v) \<in> set s. prefix ''message:'' k \<longrightarrow> timestamp v \<noteq> None)"

section \<open>Collaborators for concrete runs\<close>

text \<open>
  An identity provider that knows a table of sessions: \<^verbatim>\<open>getUser\<close> resolves an access
  token of the table to its user id and every other token, or none, to no user.
\<close>

definition sessions :: "(string \<times> string) list \<Rightarrow> string option \<Rightarrow> exn + string option" where
  "sessions table accessToken =
     (case accessToken of None \<Rightarrow> Inr None | Some t \<Rightarrow> Inr (map_of table t))"

text \<open>
  An identity provider whose \<^verbatim>\<open>createUser\<close> rejects the e-mail addresses of a list as
  already registered and gives every other sign-up the id \<open>fresh\<close>.
\<close>

definition registrar ::
  "string list \<Rightarrow> string \<Rightarrow> string \<times> string \<times> string \<times> string \<Rightarrow> exn + (string + string)" where
  "registrar taken fresh input =
     (case input of (mail, password, nam, avat) \<Rightarrow>
        if mail \<in> set taken then Inr (Inl ''A user with this email address has already been registered'')
        else Inr (Inr fresh))"

text \<open>A store that is down: each of its operations throws \<open>e\<close>.\<close>

definition unavailable :: "exn \<Rightarrow> store kv_store" where
  "unavailable e =
     \<lparr>kv_set = (\<lambda>k v s. Inl e), kv_get = (\<lambda>k s. Inl e), kv_getByPrefix = (\<lambda>p s. Inl e)\<rparr>"

text \<open>Two user ids of the shape the identity provider issues, and their access tokens.\<close>

definition alice :: string where
  "alice = ''3f2504e0-4f89-41d3-9a0c-0305e82c3301''"

definition bob :: string where
  "bob = ''9b2e1c6a-7d5f-4e8b-8c3a-5a1f0e9d7b42''"

definition logged_in :: "string option \<Rightarrow> exn + string option" where
  "logged_in = sessions [(''token-a'', alice), (''token-b'', bob)]"

text \<open>
  A store as the handlers leave it after both users have signed up and bob, whose e-mail
  address is the parameter, has reported a location.
\<close>

definition alice_profile :: jsobj where
  "alice_profile = newProfile alice ''alice@example.org'' ''Alice'' ''A'' 1730000000000"

definition bob_profile :: "string \<Rightarrow> jsobj" where
  "bob_profile bob_mail =
     (newProfile bob bob_mail ''Bob'' ''B'' 1730000000100)
       \<lparr>latitude := Num 14.5995, longitude := Num 120.9842, lastSeen := Some 1730000000500\<rparr>"

definition town :: "string \<Rightarrow> store" where
  "town bob_mail = [(''user:'' @ alice, alice_profile), (''user:'' @ bob, bob_profile bob_mail)]"




text \<open>
  The engine on the list of these three objects followed by a later message: the
  comparator yields NaN next to the undated object and a positive number for the last
  pair, so the engine's sort finds one ascending run and returns the list as it was
  stored.
\<close>

definition as_stored :: "jsobj list \<Rightarrow> jsobj list" where
  "as_stored messages = messages"

section \<open>Conversation ids\<close>

text \<open>
  C2. The conversation id of a pair of user ids does not depend on the order in which the
  pair is given: \<open>conversationId A B = conversationId B A\<close> for all ids \<open>A\<close> and \<open>B\<close>.
\<close>

theorem conversationId_commute: "conversationId A B = conversationId B A"
  by (auto simp: conversationId_def)

section \<open>Auxiliary facts\<close>

lemmas handler_defs =
  signup_def signup_try_def updateLocation_def updateLocation_try_def
  nearbyUsers_def nearbyUsers_try_def sendMessage_def sendMessage_try_def
  getMessages_def getMessages_try_def try_catch_def json_def

lemmas mem_defs = mem_def mem_set_def mem_get_def mem_getByPrefix_def

lemma logged_in_alice: "logged_in (Some ''token-a'') = Inr (Some alice)"
  by (simp add: logged_in_def sessions_def)

lemma logged_in_bob: "logged_in (Some ''token-b'') = Inr (Some bob)"
  by (simp add: logged_in_def sessions_def)

lemma conversationId_swap: "conversationId b a = conversationId a b"
  by (auto simp: conversationId_def)




lemma update_entries: "set (AList.update k v s) \<subseteq> insert (k, v) (set s)"
  by (induction s) auto



lemma public_fields_email: "public_fields (u\<lparr>email := e\<rparr>) = public_fields u"
  by (simp add: public_fields_def)

lemma located_other_email: "located_other user (u\<lparr>email := e\<rparr>) = located_other user u"
  by (simp add: located_other_def)

lemma nearby_pipeline_email:
  "map public_fields (filter (located_other user) (map snd (filter (\<lambda>(k, v). prefix p k) s)))
   = map public_fields (filter (located_other user)
       (map snd (filter (\<lambda>(k, v). prefix p k) (without_email s))))"
proof (induction s)
  case Nil
  show ?case by (simp add: without_email_def)
next
  case (Cons kv s)
  obtain k u where kv: "kv = (k, u)" by (cases kv)
  from Cons show ?case
    by (simp add: kv without_email_def public_fields_email located_other_email)
qed

lemma public_fields_only:
  "email (public_fields u) = None \<and> senderId (public_fields u) = None \<and>
   recipientId (public_fields u) = None \<and> message (public_fields u) = None \<and>
   timestamp (public_fields u) = None"
  by (simp add: public_fields_def empty_obj_def)

section \<open>The handlers keep messages dated\<close>

lemma dated_empty: "dated []"
  by (simp add: dated_def)

lemma dated_update:
  assumes "dated s" and "prefix ''message:'' k \<longrightarrow> timestamp v \<noteq> None"
  shows "dated (AList.update k v s)"
proof -
  have "timestamp v' \<noteq> None"
    if entry: "(k', v') \<in> set (AList.update k v s)" and pre: "prefix ''message:'' k'" for k' v'
  proof -
    from entry update_entries[of k v s] have "(k', v') = (k, v) \<or> (k', v') \<in> set s" by auto
    with assms pre show ?thesis by (auto simp: dated_def)
  qed
  then show ?thesis by (auto simp: dated_def)
qed

lemma dated_signup: "dated s \<Longrightarrow> dated (snd (signup mem supabase createUser req now s))"
  by (auto simp: signup_def signup_try_def try_catch_def mem_defs
           split: sum.splits option.splits prod.splits intro!: dated_update)

lemma dated_updateLocation:
  "dated s \<Longrightarrow> dated (snd (updateLocation mem supabase getUser accessToken req now s))"
  by (auto simp: updateLocation_def updateLocation_try_def try_catch_def mem_defs
           split: sum.splits option.splits prod.splits intro!: dated_update)

lemma dated_sendMessage:
  "dated s \<Longrightarrow> dated (snd (sendMessage mem supabase getUser accessToken req now date s))"
  by (auto simp: sendMessage_def sendMessage_try_def try_catch_def mem_defs Let_def newMessage_def
           split: sum.splits option.splits prod.splits intro!: dated_update)

lemma dated_reads:
  "snd (nearbyUsers mem supabase getUser accessToken s) = s"
  "snd (getMessages mem engine supabase getUser accessToken rid s) = s"
  by (auto simp: nearbyUsers_def nearbyUsers_try_def getMessages_def getMessages_try_def
        try_catch_def mem_defs split: sum.splits option.splits)

lemma dated_scan:
  assumes "dated s"
  shows "\<forall>(k, v) \<in> set s. prefix (scanPrefix A B) k \<longrightarrow> timestamp v \<noteq> None"
  using assms by (auto simp: dated_def scanPrefix_def prefix_def)

section \<open>The scenario of the specification\<close>

text \<open>
  Alice signs up, bob signs up, both report a location; alice's nearby-users then shows
  exactly bob, without his e-mail address; alice sends "hi", and bob's get-messages with
  alice's id returns that one message.
\<close>

lemma scenario:
  "(let s1 = snd (signup mem (Inr ()) (registrar [] alice)
                    (Inr (''alice@example.org'', ''secret'', ''Alice'', ''A'')) 1730000000000 []);
        s2 = snd (signup mem (Inr ()) (registrar [] bob)
                    (Inr (''bob@example.org'', ''secret'', ''Bob'', ''B'')) 1730000000100 s1);
        s3 = snd (updateLocation mem (Inr ()) logged_in (Some ''token-a'')
                    (Inr (Num 14.6, Num 121)) 1730000000200 s2);
        s4 = snd (updateLocation mem (Inr ()) logged_in (Some ''token-b'')
                    (Inr (Num 14.5995, Num 120.9842)) 1730000000500 s3);
        s5 = snd (sendMessage mem (Inr ()) logged_in (Some ''token-a'') (Inr (bob, ''hi''))
                    1730000000600 1730000000600 s4)
    in s4 = [(''user:'' @ alice,
               alice_profile\<lparr>latitude := Num 14.6, longitude := Num 121,
                              lastSeen := Some 1730000000200\<rparr>),
             (''user:'' @ bob, bob_profile ''bob@example.org'')] \<and>
       fst (nearbyUsers mem (Inr ()) logged_in (Some ''token-a'') s4)
         = json (Users [empty_obj\<lparr>id' := Some bob, name := Some ''Bob'', avatar := Some ''B'',
                          latitude := Num 14.5995, longitude := Num 120.9842,
                          lastSeen := Some 1730000000500\<rparr>]) 200 \<and>
       fst (getMessages mem engine (Inr ()) logged_in (Some ''token-b'') alice s5)
         = json (Messages [empty_obj\<lparr>senderId := Some alice, recipientId := Some bob,
                             message := Some ''hi'', timestamp := Some 1730000000600\<rparr>]) 200)"
  by (simp add: handler_defs mem_defs Let_def logged_in_alice logged_in_bob registrar_def
        bob_profile_def alice_profile_def newProfile_def empty_obj_def located_other_def
        public_fields_def sortByTimestamp_def newMessage_def scanPrefix_def messageKey_def
        conversationId_def alice_def bob_def)

section \<open>Sending and reading messages\<close>




text \<open>
  C8. Two send-message calls in one conversation whose \<^verbatim>\<open>Date.now()\<close> reads the same
  millisecond compute the same key, whichever of the two users sends; the second write
  then replaces the first message: the store after both calls is the store the second
  call alone would have left, and the key holds the second message.
\<close>

theorem same_millisecond_overwrites:
  assumes "getUser tokenA = Inr (Some A)" and "getUser tokenB = Inr (Some B)"
  shows "messageKey B A now = messageKey A B now \<and>
         snd (sendMessage mem (Inr ()) getUser tokenA (Inr (B, m2)) now date2
               (snd (sendMessage mem (Inr ()) getUser tokenA (Inr (B, m1)) now date1 s)))
           = snd (sendMessage mem (Inr ()) getUser tokenA (Inr (B, m2)) now date2 s) \<and>
         snd (sendMessage mem (Inr ()) getUser tokenB (Inr (A, m2)) now date2
               (snd (sendMessage mem (Inr ()) getUser tokenA (Inr (B, m1)) now date1 s)))
           = snd (sendMessage mem (Inr ()) getUser tokenB (Inr (A, m2)) now date2 s) \<and>
         mem_get (messageKey A B now)
            (snd (sendMessage mem (Inr ()) getUser tokenA (Inr (B, m2)) now date2
               (snd (sendMessage mem (Inr ()) getUser tokenA (Inr (B, m1)) now date1 s))))
           = Inr (Some (empty_obj\<lparr>senderId := Some A, recipientId := Some B,
                                   message := Some m2, timestamp := Some date2\<rparr>))"
  using assms
  by (simp add: sendMessage_def sendMessage_try_def try_catch_def mem_defs messageKey_def
                newMessage_def Let_def conversationId_swap[of A B] AList.update_conv')

theorem same_millisecond_overwrites_witness:
  "logged_in (Some ''token-a'') = Inr (Some alice) \<and>
   logged_in (Some ''token-b'') = Inr (Some bob) \<and>
   (messageKey bob alice 1730000000123 = messageKey alice bob 1730000000123 \<and>
    snd (sendMessage mem (Inr ()) logged_in (Some ''token-a'') (Inr (bob, ''second''))
           1730000000123 1730000000124
           (snd (sendMessage mem (Inr ()) logged_in (Some ''token-a'') (Inr (bob, ''first''))
                   1730000000123 1730000000123 [])))
      = snd (sendMessage mem (Inr ()) logged_in (Some ''token-a'') (Inr (bob, ''second''))
               1730000000123 1730000000124 []) \<and>
    snd (sendMessage mem (Inr ()) logged_in (Some ''token-b'') (Inr (alice, ''second''))
           1730000000123 1730000000124
           (snd (sendMessage mem (Inr ()) logged_in (Some ''token-a'') (Inr (bob, ''first''))
                   1730000000123 1730000000123 [])))
      = snd (sendMessage mem (Inr ()) logged_in (Some ''token-b'') (Inr (alice, ''second''))
               1730000000123 1730000000124 []) \<and>
    mem_get (messageKey alice bob 1730000000123)
       (snd (sendMessage mem (Inr ()) logged_in (Some ''token-a'') (Inr (bob, ''second''))
               1730000000123 1730000000124
               (snd (sendMessage mem (Inr ()) logged_in (Some ''token-a'') (Inr (bob, ''first''))
                       1730000000123 1730000000123 []))))
      = Inr (Some (empty_obj\<lparr>senderId := Some alice, recipientId := Some bob,
                              message := Some ''second'', timestamp := Some 1730000000124\<rparr>)))"
  by (intro conjI logged_in_alice logged_in_bob
        same_millisecond_overwrites[where getUser = logged_in and tokenA = "Some ''token-a''"
          and tokenB = "Some ''token-b''", OF logged_in_alice logged_in_bob])

section \<open>Signing up and updating the location\<close>

text \<open>
  C4. When the identity provider creates the user, signup answers 200 with the new id and
  has written, under the key \<open>user:<id>\<close>, a profile of that id whose latitude and longitude
  are both null; reading that key afterwards yields this profile.
\<close>

theorem signup_profile_has_null_coordinates:
  assumes "createUser (mail, password, nam, avat) = Inr (Inr user)"
  shows "\<exists>s' profile.
           signup mem (Inr ()) createUser (Inr (mail, password, nam, avat)) now s
             = (json (SuccessUser user) 200, s') \<and>
           mem_get (''user:'' @ user) s' = Inr (Some profile) \<and>
           id' profile = Some user \<and> latitude profile = Null \<and> longitude profile = Null"
  using assms by (simp add: handler_defs mem_defs newProfile_def AList.update_conv')

theorem signup_profile_has_null_coordinates_witness:
  "registrar [] alice (''alice@example.org'', ''secret'', ''Alice'', ''A'') = Inr (Inr alice) \<and>
   (\<exists>s' profile.
      signup mem (Inr ()) (registrar [] alice)
          (Inr (''alice@example.org'', ''secret'', ''Alice'', ''A'')) 1730000000123 []
        = (json (SuccessUser alice) 200, s') \<and>
      mem_get (''user:'' @ alice) s' = Inr (Some profile) \<and>
      id' profile = Some alice \<and> latitude profile = Null \<and> longitude profile = Null)"
proof -
  have created:
    "registrar [] alice (''alice@example.org'', ''secret'', ''Alice'', ''A'') = Inr (Inr alice)"
    by (simp add: registrar_def)
  show ?thesis
    by (intro conjI created signup_profile_has_null_coordinates[where createUser = "registrar [] alice", OF created])
qed

text \<open>
  C5. When the store holds nothing under the caller's key \<open>user:<id>\<close>, update-location
  with any latitude and longitude answers 200 with the success body and leaves the store
  as it was; this holds for every store behind the interface, since the handler then
  makes no write.
\<close>

theorem updateLocation_without_profile:
  assumes "getUser accessToken = Inr (Some user)"
      and "kv_get kv (''user:'' @ user) s = Inr None"
  shows "updateLocation kv (Inr ()) getUser accessToken (Inr (lat, lon)) now s
           = (json Success 200, s)"
  using assms by (simp add: handler_defs)

theorem updateLocation_without_profile_witness:
  "logged_in (Some ''token-b'') = Inr (Some bob) \<and>
   kv_get mem (''user:'' @ bob) [(''user:'' @ alice, alice_profile)] = Inr None \<and>
   updateLocation mem (Inr ()) logged_in (Some ''token-b'') (Inr (Num 14.5995, Num 120.9842))
       1730000000123 [(''user:'' @ alice, alice_profile)]
     = (json Success 200, [(''user:'' @ alice, alice_profile)])"
proof -
  have absent:
    "kv_get mem (''user:'' @ bob) [(''user:'' @ alice, alice_profile)] = Inr None"
    by (simp add: mem_defs alice_def bob_def)
  show ?thesis
    by (intro conjI logged_in_bob absent
          updateLocation_without_profile[where getUser = logged_in and accessToken = "Some ''token-b''",
            OF logged_in_bob absent])
qed

text \<open>
  C9, as stated: for every store, caller, latitude and longitude, applying
  update-location twice leaves the store that applying it once leaves. The handler stamps
  \<open>lastSeen\<close> with the clock at each call, so this fails as soon as the clock has moved on
  between the two calls.
\<close>

theorem updateLocation_twice_differs:
  "snd (updateLocation mem (Inr ()) logged_in (Some ''token-a'') (Inr (Num 14.5995, Num 120.9842))
          1730000000999
          (snd (updateLocation mem (Inr ()) logged_in (Some ''token-a'')
                  (Inr (Num 14.5995, Num 120.9842)) 1730000000123
                  [(''user:'' @ alice, alice_profile)])))
   \<noteq> snd (updateLocation mem (Inr ()) logged_in (Some ''token-a'')
            (Inr (Num 14.5995, Num 120.9842)) 1730000000123
            [(''user:'' @ alice, alice_profile)])"
  by (simp add: updateLocation_def updateLocation_try_def try_catch_def mem_defs
                logged_in_alice alice_profile_def newProfile_def empty_obj_def)

text \<open>
  C9, amended. Applying update-location twice with the same caller, latitude and longitude
  leaves the store that a single application at the second call's clock reading leaves.
  Compared with the store after the first application, the store after the second has
  the same keys in the same order, the same object under every key but the caller's, and
  under the caller's key the same profile with \<open>lastSeen\<close> set to the second call's clock
  reading: the second application changes nothing except the caller's \<open>lastSeen\<close>.
\<close>

theorem updateLocation_twice:
  assumes "getUser accessToken = Inr (Some user)"
  shows "snd (updateLocation mem (Inr ()) getUser accessToken (Inr (lat, lon)) t2
           (snd (updateLocation mem (Inr ()) getUser accessToken (Inr (lat, lon)) t1 s)))
         = snd (updateLocation mem (Inr ()) getUser accessToken (Inr (lat, lon)) t2 s) \<and>
         map fst (snd (updateLocation mem (Inr ()) getUser accessToken (Inr (lat, lon)) t2
           (snd (updateLocation mem (Inr ()) getUser accessToken (Inr (lat, lon)) t1 s))))
         = map fst (snd (updateLocation mem (Inr ()) getUser accessToken (Inr (lat, lon)) t1 s)) \<and>
         (\<forall>k. map_of (snd (updateLocation mem (Inr ()) getUser accessToken (Inr (lat, lon)) t2
                  (snd (updateLocation mem (Inr ()) getUser accessToken (Inr (lat, lon)) t1 s)))) k
              = (if k = ''user:'' @ user
                 then map_option (\<lambda>u. u\<lparr>lastSeen := Some t2\<rparr>)
                        (map_of (snd (updateLocation mem (Inr ()) getUser accessToken
                                        (Inr (lat, lon)) t1 s)) k)
                 else map_of (snd (updateLocation mem (Inr ()) getUser accessToken
                                     (Inr (lat, lon)) t1 s)) k))"
proof (cases "map_of s (''user:'' @ user)")
  case None
  with assms show ?thesis
    by (simp add: updateLocation_def updateLocation_try_def try_catch_def mem_defs)
next
  case (Some userData)
  then have "(''user:'' @ user, userData) \<in> set s"
    by (rule map_of_SomeD)
  then have present: "''user:'' @ user \<in> fst ` set s"
    by force
  define once where
    "once = AList.update (''user:'' @ user)
              (userData\<lparr>latitude := lat, longitude := lon, lastSeen := Some t1\<rparr>) s"
  have first: "snd (updateLocation mem (Inr ()) getUser accessToken (Inr (lat, lon)) t1 s) = once"
    using assms Some
    by (simp add: updateLocation_def updateLocation_try_def try_catch_def mem_defs once_def)
  have at_once: "map_of once (''user:'' @ user)
                   = Some (userData\<lparr>latitude := lat, longitude := lon, lastSeen := Some t1\<rparr>)"
    by (simp add: once_def AList.update_conv')
  have second: "snd (updateLocation mem (Inr ()) getUser accessToken (Inr (lat, lon)) t2 once)
                  = AList.update (''user:'' @ user)
                      (userData\<lparr>latitude := lat, longitude := lon, lastSeen := Some t2\<rparr>) s"
    using assms at_once
    by (simp add: updateLocation_def updateLocation_try_def try_catch_def mem_defs)
       (simp add: once_def)
  have alone: "snd (updateLocation mem (Inr ()) getUser accessToken (Inr (lat, lon)) t2 s)
                 = AList.update (''user:'' @ user)
                     (userData\<lparr>latitude := lat, longitude := lon, lastSeen := Some t2\<rparr>) s"
    using assms Some
    by (simp add: updateLocation_def updateLocation_try_def try_catch_def mem_defs)
  have keys: "map fst (AList.update (''user:'' @ user)
                 (userData\<lparr>latitude := lat, longitude := lon, lastSeen := Some t2\<rparr>) s)
              = map fst once"
    using present by (simp add: once_def AList.update_keys)
  have frame: "map_of (AList.update (''user:'' @ user)
                  (userData\<lparr>latitude := lat, longitude := lon, lastSeen := Some t2\<rparr>) s) k
               = (if k = ''user:'' @ user
                  then map_option (\<lambda>u. u\<lparr>lastSeen := Some t2\<rparr>) (map_of once k)
                  else map_of once k)" for k
    by (simp add: once_def AList.update_conv')
  show ?thesis
    unfolding first second alone using keys frame by simp
qed

theorem updateLocation_twice_witness:
  "logged_in (Some ''token-a'') = Inr (Some alice) \<and>
   (snd (updateLocation mem (Inr ()) logged_in (Some ''token-a'') (Inr (Num 14.6, Num 121))
           1730000000999
           (snd (updateLocation mem (Inr ()) logged_in (Some ''token-a'') (Inr (Num 14.6, Num 121))
                   1730000000700 (town ''bob@example.org''))))
    = snd (updateLocation mem (Inr ()) logged_in (Some ''token-a'') (Inr (Num 14.6, Num 121))
             1730000000999 (town ''bob@example.org'')) \<and>
    map fst (snd (updateLocation mem (Inr ()) logged_in (Some ''token-a'') (Inr (Num 14.6, Num 121))
           1730000000999
           (snd (updateLocation mem (Inr ()) logged_in (Some ''token-a'') (Inr (Num 14.6, Num 121))
                   1730000000700 (town ''bob@example.org'')))))
    = map fst (snd (updateLocation mem (Inr ()) logged_in (Some ''token-a'')
                      (Inr (Num 14.6, Num 121)) 1730000000700 (town ''bob@example.org''))) \<and>
    (\<forall>k. map_of (snd (updateLocation mem (Inr ()) logged_in (Some ''token-a'')
                        (Inr (Num 14.6, Num 121)) 1730000000999
                        (snd (updateLocation mem (Inr ()) logged_in (Some ''token-a'')
                                (Inr (Num 14.6, Num 121)) 1730000000700
                                (town ''bob@example.org'')))))
                k
          = (if k = ''user:'' @ alice
             then map_option (\<lambda>u. u\<lparr>lastSeen := Some 1730000000999\<rparr>)
                    (map_of (snd (updateLocation mem (Inr ()) logged_in (Some ''token-a'')
                                    (Inr (Num 14.6, Num 121)) 1730000000700
                                    (town ''bob@example.org''))) k)
             else map_of (snd (updateLocation mem (Inr ()) logged_in (Some ''token-a'')
                                 (Inr (Num 14.6, Num 121)) 1730000000700
                                 (town ''bob@example.org''))) k))) \<and>
   snd (updateLocation mem (Inr ()) logged_in (Some ''token-a'') (Inr (Num 14.6, Num 121))
          1730000000999
          (snd (updateLocation mem (Inr ()) logged_in (Some ''token-a'') (Inr (Num 14.6, Num 121))
                  1730000000700 (town ''bob@example.org''))))
     = [(''user:'' @ alice,
         alice_profile\<lparr>latitude := Num 14.6, longitude := Num 121,
                        lastSeen := Some 1730000000999\<rparr>),
        (''user:'' @ bob, bob_profile ''bob@example.org'')]"
proof -
  have final:
    "snd (updateLocation mem (Inr ()) logged_in (Some ''token-a'') (Inr (Num 14.6, Num 121))
            1730000000999
            (snd (updateLocation mem (Inr ()) logged_in (Some ''token-a'') (Inr (Num 14.6, Num 121))
                    1730000000700 (town ''bob@example.org''))))
       = [(''user:'' @ alice,
           alice_profile\<lparr>latitude := Num 14.6, longitude := Num 121,
                          lastSeen := Some 1730000000999\<rparr>),
          (''user:'' @ bob, bob_profile ''bob@example.org'')]"
    by (simp add: updateLocation_def updateLocation_try_def try_catch_def mem_defs
          logged_in_alice town_def alice_def bob_def)
  show ?thesis
    by (intro conjI logged_in_alice final
          updateLocation_twice[where getUser = logged_in and accessToken = "Some ''token-a''",
            OF logged_in_alice])
qed

section \<open>Nearby users\<close>

text \<open>
  C10. For an authenticated caller, nearby-users answers 200 with a list of objects that
  carry no e-mail address (and none of the message properties): each is built from the
  six properties id, name, avatar, latitude, longitude and lastSeen. The list is the same
  on every store that differs from the given one in e-mail properties only.
\<close>

theorem nearbyUsers_hides_email:
  assumes "getUser accessToken = Inr (Some user)"
  shows "\<exists>users.
           nearbyUsers mem (Inr ()) getUser accessToken s = (json (Users users) 200, s) \<and>
           (\<forall>u \<in> set users. email u = None \<and> senderId u = None \<and> recipientId u = None \<and>
                              message u = None \<and> timestamp u = None) \<and>
           (\<forall>s2. without_email s2 = without_email s \<longrightarrow>
                 nearbyUsers mem (Inr ()) getUser accessToken s2 = (json (Users users) 200, s2))"
proof -
  define pipeline where
    "pipeline = (\<lambda>s::store. map public_fields (filter (located_other user)
                   (map snd (filter (\<lambda>(k, v). prefix ''user:'' k) s))))"
  have run: "nearbyUsers mem (Inr ()) getUser accessToken t = (json (Users (pipeline t)) 200, t)"
    for t
    using assms
    by (simp add: nearbyUsers_def nearbyUsers_try_def try_catch_def mem_defs pipeline_def)
  have only: "email u = None \<and> senderId u = None \<and> recipientId u = None \<and>
              message u = None \<and> timestamp u = None" if "u \<in> set (pipeline s)" for u
  proof -
    from that obtain x where "u = public_fields x"
      unfolding pipeline_def by (metis (no_types) imageE list.set_map)
    then show ?thesis by (simp only: public_fields_only)
  qed
  have erase: "pipeline t = pipeline (without_email t)" for t
    unfolding pipeline_def by (rule nearby_pipeline_email)
  have same: "nearbyUsers mem (Inr ()) getUser accessToken s2 = (json (Users (pipeline s)) 200, s2)"
    if "without_email s2 = without_email s" for s2
    using that erase[of s2] erase[of s] run[of s2] by simp
  have A: "nearbyUsers mem (Inr ()) getUser accessToken s = (json (Users (pipeline s)) 200, s)"
    by (rule run)
  have B: "\<forall>u \<in> set (pipeline s). email u = None \<and> senderId u = None \<and> recipientId u = None \<and>
                              message u = None \<and> timestamp u = None"
    using only by blast
  have C: "\<forall>s2. without_email s2 = without_email s \<longrightarrow>
                 nearbyUsers mem (Inr ()) getUser accessToken s2 = (json (Users (pipeline s)) 200, s2)"
    using same by blast
  show ?thesis
    by (rule exI[of _ "pipeline s"]) (rule conjI[OF A conjI[OF B C]])
qed

theorem nearbyUsers_hides_email_witness:
  "logged_in (Some ''token-a'') = Inr (Some alice) \<and>
   without_email (town ''robert@example.net'') = without_email (town ''bob@example.org'') \<and>
   town ''robert@example.net'' \<noteq> town ''bob@example.org'' \<and>
   (\<exists>users.
      nearbyUsers mem (Inr ()) logged_in (Some ''token-a'') (town ''bob@example.org'')
        = (json (Users users) 200, town ''bob@example.org'') \<and>
      nearbyUsers mem (Inr ()) logged_in (Some ''token-a'') (town ''robert@example.net'')
        = (json (Users users) 200, town ''robert@example.net'') \<and>
      users \<noteq> [] \<and> (\<forall>u \<in> set users. email u = None))"
proof -
  have same: "without_email (town ''robert@example.net'') = without_email (town ''bob@example.org'')"
    by (simp add: without_email_def town_def bob_profile_def newProfile_def)
  have differ: "town ''robert@example.net'' \<noteq> town ''bob@example.org''"
    by (simp add: town_def bob_profile_def newProfile_def empty_obj_def)
  from nearbyUsers_hides_email[where getUser = logged_in and accessToken = "Some ''token-a''",
         OF logged_in_alice, of "town ''bob@example.org''"]
  obtain users where
    run: "nearbyUsers mem (Inr ()) logged_in (Some ''token-a'') (town ''bob@example.org'')
            = (json (Users users) 200, town ''bob@example.org'')" and
    only: "\<forall>u \<in> set users. email u = None \<and> senderId u = None \<and> recipientId u = None \<and>
                             message u = None \<and> timestamp u = None" and
    indep: "\<forall>s2. without_email s2 = without_email (town ''bob@example.org'') \<longrightarrow>
                 nearbyUsers mem (Inr ()) logged_in (Some ''token-a'') s2
                   = (json (Users users) 200, s2)"
    by blast
  from indep same have run2:
    "nearbyUsers mem (Inr ()) logged_in (Some ''token-a'') (town ''robert@example.net'')
       = (json (Users users) 200, town ''robert@example.net'')"
    by blast
  have "fst (nearbyUsers mem (Inr ()) logged_in (Some ''token-a'') (town ''bob@example.org''))
          \<noteq> json (Users []) 200"
    by (simp add: nearbyUsers_def nearbyUsers_try_def try_catch_def mem_defs json_def
          logged_in_alice town_def bob_profile_def alice_profile_def newProfile_def empty_obj_def
          located_other_def alice_def bob_def)
  with run have nonempty: "users \<noteq> []" by auto
  from only have noemail: "\<forall>u \<in> set users. email u = None" by blast
  from logged_in_alice same differ run run2 nonempty noemail show ?thesis by blast
qed

text \<open>
  What the filter does guarantee: no returned object has the caller's id, and none has a
  null (or absent, or zero) coordinate.
\<close>

lemma nearbyUsers_excludes_caller_and_unlocated:
  assumes "getUser accessToken = Inr (Some user)"
      and "nearbyUsers mem (Inr ()) getUser accessToken s = (json (Users users) 200, s')"
      and "u \<in> set users"
  shows "id' u \<noteq> Some user \<and> truthy (latitude u) \<and> truthy (longitude u) \<and>
         latitude u \<noteq> Null \<and> longitude u \<noteq> Null"
proof -
  from assms(1,2) have "users = map public_fields (filter (located_other user)
                          (map snd (filter (\<lambda>(k, v). prefix ''user:'' k) s)))"
    by (auto simp: nearbyUsers_def nearbyUsers_try_def try_catch_def mem_defs json_def)
  with assms(3) obtain x where "located_other user x" and "u = public_fields x"
    by auto
  then show ?thesis
    by (auto simp: located_other_def public_fields_def)
qed

text \<open>
  C3. nearby-users returns exactly the stored profiles whose latitude and longitude are
  both non-null and whose id is not the caller's. The code, evaluated where bob has signed
  up and reported the location latitude 0, longitude 109.3: bob's stored profile has both
  coordinates non-null and is not alice's, yet alice's nearby-users returns no one, since
  the filter tests the coordinates for truthiness and the number 0 is falsy.
\<close>

theorem nearbyUsers_drops_zero_latitude:
  "mem_get (''user:'' @ bob)
     (snd (updateLocation mem (Inr ()) logged_in (Some ''token-b'') (Inr (Num 0, Num 109.3))
             1730000000500 (town ''bob@example.org'')))
     = Inr (Some ((newProfile bob ''bob@example.org'' ''Bob'' ''B'' 1730000000100)
                    \<lparr>latitude := Num 0, longitude := Num 109.3, lastSeen := Some 1730000000500\<rparr>)) \<and>
   Num 0 \<noteq> Null \<and> Num 109.3 \<noteq> Null \<and> bob \<noteq> alice \<and>
   fst (nearbyUsers mem (Inr ()) logged_in (Some ''token-a'')
          (snd (updateLocation mem (Inr ()) logged_in (Some ''token-b'') (Inr (Num 0, Num 109.3))
                  1730000000500 (town ''bob@example.org''))))
     = json (Users []) 200"
  by (simp add: nearbyUsers_def nearbyUsers_try_def updateLocation_def updateLocation_try_def
        try_catch_def mem_defs json_def logged_in_alice logged_in_bob town_def bob_profile_def alice_profile_def
        newProfile_def empty_obj_def located_other_def alice_def bob_def)

section \<open>One scan prefix per conversation\<close>

text \<open>
  Among ids of one length, as the ids the identity provider issues are, a key is matched
  by the scan prefix of its own conversation only.
\<close>

lemma prefix_append_same_length:
  assumes "length x = length u"
  shows "prefix (x @ r) (u @ t) \<longleftrightarrow> x = u \<and> prefix r t"
  using assms by (auto simp: prefix_def)

lemma conversationId_split:
  obtains x y where "conversationId a b = x @ '':'' @ y" and "{x, y} = {a, b}"
proof (cases "b < a")
  case True
  then have "conversationId a b = b @ '':'' @ a" and "{b, a} = {a, b}"
    by (auto simp: conversationId_def)
  then show ?thesis by (rule that)
next
  case False
  then have "conversationId a b = a @ '':'' @ b" and "{a, b} = {a, b}"
    by (auto simp: conversationId_def)
  then show ?thesis by (rule that)
qed

lemma scan_matches_own_conversation_only:
  assumes len: "length a = n" "length b = n" "length c = n" "length d = n"
      and match: "prefix (scanPrefix a b) (messageKey c d now)"
  shows "{a, b} = {c, d}"
proof -
  obtain x y where xy: "conversationId a b = x @ '':'' @ y" and xyab: "{x, y} = {a, b}"
    by (rule conversationId_split)
  obtain u v where uv: "conversationId c d = u @ '':'' @ v" and uvcd: "{u, v} = {c, d}"
    by (rule conversationId_split)
  from xyab len have lx: "length x = n" and ly: "length y = n"
    by (auto simp: doubleton_eq_iff)
  from uvcd len have lu: "length u = n" and lv: "length v = n"
    by (auto simp: doubleton_eq_iff)
  from match have "prefix (x @ ('':'' @ y)) (u @ ('':'' @ v @ '':'' @ decimal now))"
    by (simp add: scanPrefix_def messageKey_def xy uv)
  with lx lu have "x = u" and "prefix ('':'' @ y) ('':'' @ v @ '':'' @ decimal now)"
    by (simp_all add: prefix_append_same_length)
  then have "prefix (y @ []) (v @ ('':'' @ decimal now))" by simp
  with ly lv have "y = v" by (simp only: prefix_append_same_length)
  with \<open>x = u\<close> xyab uvcd show ?thesis by simp
qed

text \<open>
  C7. For every two distinct pairs of ids, the keys of one conversation are never matched
  by the scan prefix of the other, so get-messages returns the queried conversation's
  messages only. The code, evaluated where alice has sent one message to the recipient id
  that is bob's id followed by \<open>x\<close>: the two conversation ids differ, yet the scan prefix of
  the conversation of alice and bob matches the key of that message, and get-messages,
  called by bob with alice's id, returns it.
\<close>

theorem getMessages_returns_other_conversation:
  "conversationId alice (bob @ ''x'') \<noteq> conversationId alice bob \<and>
   prefix (scanPrefix bob alice) (messageKey alice (bob @ ''x'') 1730000000123) \<and>
   fst (getMessages mem engine (Inr ()) logged_in (Some ''token-b'') alice
          (snd (sendMessage mem (Inr ()) logged_in (Some ''token-a'') (Inr (bob @ ''x'', ''psst''))
                  1730000000123 1730000000123 [])))
     = json (Messages [empty_obj\<lparr>senderId := Some alice, recipientId := Some (bob @ ''x''),
                                   message := Some ''psst'', timestamp := Some 1730000000123\<rparr>]) 200"
  by (simp add: getMessages_def getMessages_try_def sendMessage_def sendMessage_try_def
        try_catch_def mem_defs json_def logged_in_alice logged_in_bob Let_def
        sortByTimestamp_def newMessage_def scanPrefix_def messageKey_def conversationId_def
        alice_def bob_def)

section \<open>Failures and HTTP statuses\<close>

text \<open>
  C6. Every failure is answered with an error body and the status of its kind, and leaves
  the store as it was:
  \<^item> 400 with the provider's message when the identity provider reports an error on
    signup;
  \<^item> 401 with \<open>Unauthorized\<close> when the access token resolves to no user, on each of
    update-location, nearby-users, send-message and get-messages;
  \<^item> 500 with the thrown error's text for every other failure, that is for a throw at any
    step of any handler: creating the client, the provider's call, reading the request
    body, and each call of the store, a write being the write of the very object the
    handler stores.
\<close>

theorem error_taxonomy:
  "(createUser input = Inr (Inl error_message) \<longrightarrow>
      signup kv (Inr ()) createUser (Inr input) now s = (json (Error error_message) 400, s)) \<and>
   (getUser accessToken = Inr None \<longrightarrow>
      updateLocation kv (Inr ()) getUser accessToken location now s
        = (json (Error ''Unauthorized'') 401, s) \<and>
      nearbyUsers kv (Inr ()) getUser accessToken s = (json (Error ''Unauthorized'') 401, s) \<and>
      sendMessage kv (Inr ()) getUser accessToken outgoing now date s
        = (json (Error ''Unauthorized'') 401, s) \<and>
      getMessages kv engine (Inr ()) getUser accessToken rid s = (json (Error ''Unauthorized'') 401, s)) \<and>
   (supabase = Inl e \<longrightarrow>
      signup kv supabase createUser registration now s = (json (Error e) 500, s) \<and>
      updateLocation kv supabase getUser accessToken location now s = (json (Error e) 500, s) \<and>
      nearbyUsers kv supabase getUser accessToken s = (json (Error e) 500, s) \<and>
      sendMessage kv supabase getUser accessToken outgoing now date s = (json (Error e) 500, s) \<and>
      getMessages kv engine supabase getUser accessToken rid s = (json (Error e) 500, s)) \<and>
   (getUser accessToken = Inl e \<longrightarrow>
      updateLocation kv (Inr ()) getUser accessToken location now s = (json (Error e) 500, s) \<and>
      nearbyUsers kv (Inr ()) getUser accessToken s = (json (Error e) 500, s) \<and>
      sendMessage kv (Inr ()) getUser accessToken outgoing now date s = (json (Error e) 500, s) \<and>
      getMessages kv engine (Inr ()) getUser accessToken rid s = (json (Error e) 500, s)) \<and>
   signup kv (Inr ()) createUser (Inl e) now s = (json (Error e) 500, s) \<and>
   (createUser input = Inl e \<longrightarrow>
      signup kv (Inr ()) createUser (Inr input) now s = (json (Error e) 500, s)) \<and>
   (createUser (mail, password, nam, avat) = Inr (Inr user) \<and>
    kv_set kv (''user:'' @ user) (newProfile user mail nam avat now) s = Inl e \<longrightarrow>
      signup kv (Inr ()) createUser (Inr (mail, password, nam, avat)) now s
        = (json (Error e) 500, s)) \<and>
   (getUser accessToken = Inr (Some user) \<longrightarrow>
      updateLocation kv (Inr ()) getUser accessToken (Inl e) now s = (json (Error e) 500, s) \<and>
      sendMessage kv (Inr ()) getUser accessToken (Inl e) now date s = (json (Error e) 500, s) \<and>
      (kv_get kv (''user:'' @ user) s = Inl e \<longrightarrow>
         updateLocation kv (Inr ()) getUser accessToken (Inr (lat, lon)) now s
           = (json (Error e) 500, s)) \<and>
      (kv_get kv (''user:'' @ user) s = Inr (Some userData) \<and>
       kv_set kv (''user:'' @ user)
         (userData\<lparr>latitude := lat, longitude := lon, lastSeen := Some now\<rparr>) s = Inl e \<longrightarrow>
         updateLocation kv (Inr ()) getUser accessToken (Inr (lat, lon)) now s
           = (json (Error e) 500, s)) \<and>
      (kv_getByPrefix kv ''user:'' s = Inl e \<longrightarrow>
         nearbyUsers kv (Inr ()) getUser accessToken s = (json (Error e) 500, s)) \<and>
      (kv_set kv (messageKey user rid now) (newMessage user rid m date) s = Inl e \<longrightarrow>
         sendMessage kv (Inr ()) getUser accessToken (Inr (rid, m)) now date s
           = (json (Error e) 500, s)) \<and>
      (kv_getByPrefix kv (scanPrefix user rid) s = Inl e \<longrightarrow>
         getMessages kv engine (Inr ()) getUser accessToken rid s = (json (Error e) 500, s)))"
  by (cases input) (simp add: handler_defs Let_def)

theorem error_taxonomy_witness:
  "registrar [''bob@example.org''] alice (''bob@example.org'', ''secret'', ''Bobby'', ''B'')
     = Inr (Inl ''A user with this email address has already been registered'') \<and>
   signup mem (Inr ()) (registrar [''bob@example.org''] alice)
       (Inr (''bob@example.org'', ''secret'', ''Bobby'', ''B'')) 1730000000900 (town ''bob@example.org'')
     = (json (Error ''A user with this email address has already been registered'') 400,
        town ''bob@example.org'') \<and>
   logged_in (Some ''stale'') = Inr None \<and>
   updateLocation mem (Inr ()) logged_in (Some ''stale'') (Inr (Num 14.5995, Num 120.9842))
       1730000000900 (town ''bob@example.org'')
     = (json (Error ''Unauthorized'') 401, town ''bob@example.org'') \<and>
   nearbyUsers mem (Inr ()) logged_in (Some ''stale'') (town ''bob@example.org'')
     = (json (Error ''Unauthorized'') 401, town ''bob@example.org'') \<and>
   sendMessage mem (Inr ()) logged_in (Some ''stale'') (Inr (bob, ''hi''))
       1730000000900 1730000000900 (town ''bob@example.org'')
     = (json (Error ''Unauthorized'') 401, town ''bob@example.org'') \<and>
   getMessages mem as_stored (Inr ()) logged_in (Some ''stale'') bob (town ''bob@example.org'')
     = (json (Error ''Unauthorized'') 401, town ''bob@example.org'') \<and>
   nearbyUsers mem (Inl ''Error: supabaseUrl is required.'') logged_in (Some ''token-a'') []
     = (json (Error ''Error: supabaseUrl is required.'') 500, []) \<and>
   signup (unavailable ''Error: connection refused'') (Inr ()) (registrar [] alice)
       (Inr (''alice@example.org'', ''secret'', ''Alice'', ''A'')) 1730000000900 []
     = (json (Error ''Error: connection refused'') 500, []) \<and>
   updateLocation (unavailable ''Error: connection refused'') (Inr ()) logged_in (Some ''token-a'')
       (Inr (Num 14.5995, Num 120.9842)) 1730000000900 []
     = (json (Error ''Error: connection refused'') 500, []) \<and>
   nearbyUsers (unavailable ''Error: connection refused'') (Inr ()) logged_in (Some ''token-a'') []
     = (json (Error ''Error: connection refused'') 500, []) \<and>
   sendMessage (unavailable ''Error: connection refused'') (Inr ()) logged_in (Some ''token-a'')
       (Inr (bob, ''hi'')) 1730000000900 1730000000900 []
     = (json (Error ''Error: connection refused'') 500, []) \<and>
   getMessages (unavailable ''Error: connection refused'') as_stored (Inr ()) logged_in
       (Some ''token-a'') bob []
     = (json (Error ''Error: connection refused'') 500, [])"
proof -
  have rejected:
    "registrar [''bob@example.org''] alice (''bob@example.org'', ''secret'', ''Bobby'', ''B'')
       = Inr (Inl ''A user with this email address has already been registered'')"
    by (simp add: registrar_def)
  have created:
    "registrar [] alice (''alice@example.org'', ''secret'', ''Alice'', ''A'') = Inr (Inr alice)"
    by (simp add: registrar_def)
  have stale: "logged_in (Some ''stale'') = Inr None"
    by (simp add: logged_in_def sessions_def)
  have down_set:
    "kv_set (unavailable ''Error: connection refused'') k v s = Inl ''Error: connection refused''"
    for k v s
    by (simp add: unavailable_def)
  have down_get:
    "kv_get (unavailable ''Error: connection refused'') k s = Inl ''Error: connection refused''"
    for k s
    by (simp add: unavailable_def)
  have down_scan:
    "kv_getByPrefix (unavailable ''Error: connection refused'') k s
       = Inl ''Error: connection refused''"
    for k s
    by (simp add: unavailable_def)
  note refused =
    error_taxonomy[where kv = mem and s = "town ''bob@example.org''"
      and createUser = "registrar [''bob@example.org''] alice"
      and input = "(''bob@example.org'', ''secret'', ''Bobby'', ''B'')"
      and error_message = "''A user with this email address has already been registered''"
      and getUser = logged_in and accessToken = "Some ''stale''"
      and location = "Inr (Num 14.5995, Num 120.9842)" and outgoing = "Inr (bob, ''hi'')"
      and now = 1730000000900 and date = 1730000000900 and rid = bob and engine = as_stored]
  note no_client =
    error_taxonomy[where kv = mem and s = "[]"
      and supabase = "Inl ''Error: supabaseUrl is required.''"
      and e = "''Error: supabaseUrl is required.''"
      and getUser = logged_in and accessToken = "Some ''token-a''"]
  note store_down =
    error_taxonomy[where kv = "unavailable ''Error: connection refused''" and s = "[]"
      and e = "''Error: connection refused''"
      and createUser = "registrar [] alice"
      and mail = "''alice@example.org''" and password = "''secret''" and nam = "''Alice''"
      and avat = "''A''" and user = alice
      and getUser = logged_in and accessToken = "Some ''token-a''"
      and lat = "Num 14.5995" and lon = "Num 120.9842" and m = "''hi''"
      and now = 1730000000900 and date = 1730000000900 and rid = bob and engine = as_stored]
  note c400 = refused[THEN conjunct1, THEN mp, OF rejected]
  note c401 = refused[THEN conjunct2, THEN conjunct1, THEN mp, OF stale]
  note c500_client =
    no_client[THEN conjunct2, THEN conjunct2, THEN conjunct1, THEN mp, OF refl,
      THEN conjunct2, THEN conjunct2, THEN conjunct1]
  note c500_signup =
    store_down[THEN conjunct2, THEN conjunct2, THEN conjunct2, THEN conjunct2, THEN conjunct2,
      THEN conjunct2, THEN conjunct1, THEN mp, OF conjI[OF created down_set]]
  note resolved =
    store_down[THEN conjunct2, THEN conjunct2, THEN conjunct2, THEN conjunct2, THEN conjunct2,
      THEN conjunct2, THEN conjunct2, THEN mp, OF logged_in_alice,
      THEN conjunct2, THEN conjunct2]
  note c500_update = resolved[THEN conjunct1, THEN mp, OF down_get]
  note c500_nearby = resolved[THEN conjunct2, THEN conjunct2, THEN conjunct1, THEN mp, OF down_scan]
  note c500_send =
    resolved[THEN conjunct2, THEN conjunct2, THEN conjunct2, THEN conjunct1, THEN mp, OF down_set]
  note c500_get =
    resolved[THEN conjunct2, THEN conjunct2, THEN conjunct2, THEN conjunct2, THEN mp, OF down_scan]
  show ?thesis
    by (intro conjI rejected stale c400 c401[THEN conjunct1]
          c401[THEN conjunct2, THEN conjunct1]
          c401[THEN conjunct2, THEN conjunct2, THEN conjunct1]
          c401[THEN conjunct2, THEN conjunct2, THEN conjunct2]
          c500_client c500_signup c500_update c500_nearby c500_send c500_get)
qed

end
